theory Spec2Isabelle
  imports Main "HOL-Library.Sublist"
begin

section \<open>Data model of \<^verbatim>\<open>bot.py\<close>\<close>

text \<open>
  A Python \<^verbatim>\<open>str\<close> is a sequence of Unicode code points. The message literals of the
  source are Korean, so a string is modelled as the list of its code points.
\<close>

type_synonym ustr = "nat list"

text \<open>
  A timezone-aware \<^verbatim>\<open>datetime\<close> in KST (UTC+9, no daylight saving): the calendar day as
  its proleptic Gregorian ordinal (\<^verbatim>\<open>date.toordinal()\<close>) and the wall-clock fields.
  \<^verbatim>\<open>datetime.now(KST)\<close> reads the system clock, so the ordinal of an invocation time is far
  above 1 and the subtraction of one day never leaves Python's date range.
\<close>

record datetime =
  ordinal :: int
  hour :: nat
  minute :: nat
  second :: nat
  microsecond :: nat

text \<open>
  The exceptions of the client library that the source names. In Python \<^verbatim>\<open>NotFound\<close> and
  \<^verbatim>\<open>Forbidden\<close> are subclasses of \<^verbatim>\<open>HTTPException\<close>; the constructor \<open>HTTPException\<close>
  stands for an HTTP failure that is neither, and \<open>OtherException\<close> for any other
  \<^verbatim>\<open>Exception\<close>.
\<close>

datatype exn = NotFound | Forbidden | HTTPException | OtherException

text \<open>
  What \<^verbatim>\<open>channel.permissions_for(member).read_messages\<close> does for a member: it evaluates to
  a flag, or raises \<^verbatim>\<open>AttributeError\<close> when the member or the default role is incomplete.
\<close>

datatype read_perm = ReadMessages bool | RaisesAttributeError

record member =
  member_id :: int
  member_bot :: bool
  display_name :: ustr
  mention :: ustr
  read_messages :: read_perm
  send_raises :: "exn option"

record message =
  author_id :: int
  created_at :: datetime

record guild =
  guild_id :: int
  guild_members :: "member list"
  fetch_members_raises :: "exn option"

record channel =
  channel_id :: int
  channel_guild :: "guild option"
  channel_messages :: "message list"
  history_raises :: "exn option"
  channel_send_raises :: "exn option"

text \<open>
  Everything \<^verbatim>\<open>check_reports\<close> reads from outside: the clock, the configured allow-list,
  the outcome of \<^verbatim>\<open>bot.fetch_channel(REPORT_CHANNEL_ID)\<close> and whether \<^verbatim>\<open>bot.user\<close> is set.
\<close>

record world =
  clock_now :: datetime
  TARGET_MEMBER_IDS :: "int set"
  fetch_channel :: "exn + channel"
  bot_user_present :: bool

text \<open>The observable actions of a run, in the order in which they happen.\<close>

datatype log_entry =
    LogChannelNotFound
  | LogChannelForbidden
  | LogChannelHTTP exn
  | LogChecking datetime datetime
  | LogHistoryForbidden
  | LogHistoryHTTP exn
  | LogNoGuild
  | LogNoBotUser
  | LogMembersForbidden
  | LogMembersHTTP exn
  | LogEligibleCount nat
  | LogDMForbidden member
  | LogDMHTTP member exn
  | LogDMOther member exn

datatype event =
    Log log_entry
  | Print "member list"
  | ChannelSend ustr
  | MemberSend member ustr

text \<open>A call returns (\<^verbatim>\<open>return\<close>, or the end of the body) or lets an exception escape.\<close>

datatype outcome = Returned | Raised exn

section \<open>The report window (\<^verbatim>\<open>_today_range\<close>, lines 86-99)\<close>

definition replace_time :: "datetime \<Rightarrow> nat \<Rightarrow> nat \<Rightarrow> nat \<Rightarrow> nat \<Rightarrow> datetime" where
  "replace_time d h m s us = d\<lparr>hour := h, minute := m, second := s, microsecond := us\<rparr>"

definition minus_days :: "datetime \<Rightarrow> int \<Rightarrow> datetime" where
  "minus_days d n = d\<lparr>ordinal := ordinal d - n\<rparr>"

definition today_range :: "datetime \<Rightarrow> datetime \<times> datetime" where
  "today_range now =
     (let start_dt = replace_time now 18 0 0 0;
          end_dt = replace_time now 23 59 59 0
      in if hour now < 6 then (minus_days start_dt 1, minus_days end_dt 1)
         else (start_dt, end_dt))"

text \<open>Lines 114-115: the default window replaces both bounds unless both are given.\<close>

definition effective_window ::
  "datetime \<Rightarrow> datetime option \<Rightarrow> datetime option \<Rightarrow> datetime \<times> datetime" where
  "effective_window now custom_start custom_end =
     (case custom_start of
        None \<Rightarrow> today_range now
      | Some s \<Rightarrow> (case custom_end of None \<Rightarrow> today_range now | Some e \<Rightarrow> (s, e)))"

section \<open>Message history (lines 140-150)\<close>

text \<open>The instant of a datetime, in microseconds since the start of ordinal day 0.\<close>

definition timestamp_us :: "datetime \<Rightarrow> int" where
  "timestamp_us d =
     (((ordinal d * 24 + int (hour d)) * 60 + int (minute d)) * 60 + int (second d)) * 1000000
       + int (microsecond d)"

text \<open>
  \<^verbatim>\<open>channel.history(after=start, before=end, limit=None)\<close>: the client library's \<^verbatim>\<open>after\<close>
  and \<^verbatim>\<open>before\<close> are exclusive bounds (it retrieves the messages after, respectively
  before, the given date), and \<^verbatim>\<open>limit=None\<close> retrieves all of them. The iteration raises
  when the history cannot be read.
\<close>

definition in_window :: "datetime \<Rightarrow> datetime \<Rightarrow> message \<Rightarrow> bool" where
  "in_window after before msg \<longleftrightarrow>
     timestamp_us after < timestamp_us (created_at msg) \<and>
     timestamp_us (created_at msg) < timestamp_us before"

definition history :: "channel \<Rightarrow> datetime \<Rightarrow> datetime \<Rightarrow> exn + message list" where
  "history ch after before =
     (case history_raises ch of
        Some e \<Rightarrow> Inl e
      | None \<Rightarrow> Inr (filter (in_window after before) (channel_messages ch)))"

text \<open>Lines 141-144: the set comprehension over the authors of the retrieved messages.\<close>

fun reporter_ids :: "message list \<Rightarrow> int set" where
  "reporter_ids [] = {}"
| "reporter_ids (msg # msgs) = insert (author_id msg) (reporter_ids msgs)"

section \<open>Eligible members (lines 160-188)\<close>

definition can_read :: "member \<Rightarrow> bool" where
  "can_read m = (case read_messages m of ReadMessages b \<Rightarrow> b | RaisesAttributeError \<Rightarrow> False)"

text \<open>Lines 172-174: the loop that appends every non-bot member who can read the channel.\<close>

fun collect_eligible :: "member list \<Rightarrow> member list" where
  "collect_eligible [] = []"
| "collect_eligible (m # ms) =
     (if \<not> member_bot m \<and> can_read m then m # collect_eligible ms else collect_eligible ms)"

text \<open>Line 188: the list comprehension that keeps the members of the allow-list.\<close>

fun keep_targets :: "int set \<Rightarrow> member list \<Rightarrow> member list" where
  "keep_targets targets [] = []"
| "keep_targets targets (m # ms) =
     (if member_id m \<in> targets then m # keep_targets targets ms else keep_targets targets ms)"

text \<open>Lines 187-188: an empty set is falsy, so the filter only runs for a non-empty one.\<close>

definition eligible_members :: "int set \<Rightarrow> member list \<Rightarrow> member list" where
  "eligible_members targets fetched =
     (let eligible = collect_eligible fetched
      in if targets \<noteq> {} then keep_targets targets eligible else eligible)"

section \<open>Non-reporters (line 200)\<close>

fun non_reporters :: "member list \<Rightarrow> int set \<Rightarrow> member list" where
  "non_reporters [] reporters = []"
| "non_reporters (m # ms) reporters =
     (if member_id m \<notin> reporters then m # non_reporters ms reporters
      else non_reporters ms reporters)"

section \<open>Notification (lines 202-227)\<close>

text \<open>The three message literals of lines 205, 213 and 220, as code points.\<close>

definition confirmation_text :: ustr where
  "confirmation_text =
     [9989, 32, 50724, 45720, 40, 50612, 51228, 32, 49, 56, 49884, 126, 51088, 51221, 41, 32,
      51452, 44036, 48372, 44256, 32, 48120, 51228, 52636, 51088, 45716, 32, 50630, 49845,
      45768, 45796, 33]"

definition reminder_header :: ustr where
  "reminder_header =
     [9200, 32, 50500, 51649, 32, 51452, 44036, 48372, 44256, 47484, 32, 51089, 49457, 54616,
      51648, 32, 50506, 51008, 32, 48516, 46308, 51077, 45768, 45796, 33]"

definition dm_text :: ustr where
  "dm_text =
     [50724, 45720, 32, 49, 56, 58, 48, 48, 126, 50, 52, 58, 48, 48, 32, 49324, 51060, 32,
      51452, 44036, 48372, 44256, 44032, 32, 54869, 51064, 46104, 51648, 32, 50506, 50520,
      49845, 45768, 45796, 46, 32, 51082, 51648, 32, 47568, 44256, 32, 51089, 49457, 54644,
      51452, 49464, 50836, 33]"

text \<open>\<^verbatim>\<open>" ".join(...)\<close>: the parts separated by one space (code point 32).\<close>

fun join_space :: "ustr list \<Rightarrow> ustr" where
  "join_space [] = []"
| "join_space [s] = s"
| "join_space (s # t # ss) = s @ [32] @ join_space (t # ss)"

text \<open>Lines 210-214: the header, a line feed (code point 10) and the mentions.\<close>

definition reminder_text :: "member list \<Rightarrow> ustr" where
  "reminder_text ms = reminder_header @ [10] @ join_space (map mention ms)"

text \<open>
  Lines 222-227: the three handlers of the direct-message loop, tried in this order.
  \<^verbatim>\<open>except discord.HTTPException\<close> also catches \<^verbatim>\<open>NotFound\<close>, and \<^verbatim>\<open>except Exception\<close>
  catches everything else, so no exception of \<^verbatim>\<open>member.send\<close> leaves the loop.
\<close>

fun dm_handler :: "member \<Rightarrow> exn \<Rightarrow> log_entry" where
  "dm_handler m Forbidden = LogDMForbidden m"
| "dm_handler m NotFound = LogDMHTTP m NotFound"
| "dm_handler m HTTPException = LogDMHTTP m HTTPException"
| "dm_handler m OtherException = LogDMOther m OtherException"

text \<open>Lines 217-227: one \<^verbatim>\<open>member.send\<close> per non-reporter, a warning where it raises.\<close>

fun send_reminders :: "member list \<Rightarrow> event list" where
  "send_reminders [] = []"
| "send_reminders (m # ms) =
     (case send_raises m of
        None \<Rightarrow> MemberSend m dm_text # send_reminders ms
      | Some e \<Rightarrow> MemberSend m dm_text # Log (dm_handler m e) # send_reminders ms)"

text \<open>
  Lines 203-227. A \<open>ChannelSend\<close> event is the call \<^verbatim>\<open>channel.send(text)\<close>; neither call is
  inside a \<^verbatim>\<open>try\<close>, so an exception of \<^verbatim>\<open>channel.send\<close> leaves \<^verbatim>\<open>check_reports\<close>.
\<close>

definition notify :: "channel \<Rightarrow> member list \<Rightarrow> outcome \<times> event list" where
  "notify ch absentees =
     (if absentees = [] then
        (case channel_send_raises ch of
           Some e \<Rightarrow> (Raised e, [ChannelSend confirmation_text])
         | None \<Rightarrow> (Returned, [ChannelSend confirmation_text]))
      else
        (case channel_send_raises ch of
           Some e \<Rightarrow> (Raised e, [ChannelSend (reminder_text absentees)])
         | None \<Rightarrow>
             (Returned, ChannelSend (reminder_text absentees) # send_reminders absentees)))"

section \<open>\<^verbatim>\<open>check_reports\<close> (lines 109-227)\<close>

text \<open>The actions \<open>evs\<close> happened, then the run went on as \<open>r\<close>.\<close>

definition after_events :: "event list \<Rightarrow> outcome \<times> event list \<Rightarrow> outcome \<times> event list" where
  "after_events evs r = (fst r, evs @ snd r)"

text \<open>Lines 186-227: the allow-list, the two diagnostics, the difference and the notices.\<close>

definition report_absentees ::
  "int set \<Rightarrow> channel \<Rightarrow> member list \<Rightarrow> int set \<Rightarrow> outcome \<times> event list" where
  "report_absentees targets ch fetched reporters =
     (let eligible = eligible_members targets fetched
      in after_events [Log (LogEligibleCount (length eligible)), Print eligible]
           (notify ch (non_reporters eligible reporters)))"

text \<open>Lines 169-184: enumerating the guild's members, with the two handlers.\<close>

definition resolve_members ::
  "int set \<Rightarrow> channel \<Rightarrow> guild \<Rightarrow> int set \<Rightarrow> outcome \<times> event list" where
  "resolve_members targets ch g reporters =
     (case fetch_members_raises g of
        Some Forbidden \<Rightarrow> (Returned, [Log LogMembersForbidden])
      | Some NotFound \<Rightarrow> (Returned, [Log (LogMembersHTTP NotFound)])
      | Some HTTPException \<Rightarrow> (Returned, [Log (LogMembersHTTP HTTPException)])
      | Some OtherException \<Rightarrow> (Raised OtherException, [])
      | None \<Rightarrow> report_absentees targets ch (guild_members g) reporters)"

text \<open>Lines 152-158: the two guards between the history and the member list.\<close>

definition check_guild :: "world \<Rightarrow> channel \<Rightarrow> int set \<Rightarrow> outcome \<times> event list" where
  "check_guild w ch reporters =
     (case channel_guild ch of
        None \<Rightarrow> (Returned, [Log LogNoGuild])
      | Some g \<Rightarrow>
          if \<not> bot_user_present w then (Returned, [Log LogNoBotUser])
          else resolve_members (TARGET_MEMBER_IDS w) ch g reporters)"

text \<open>Lines 132-150: the log line, then the history read with its two handlers.\<close>

definition read_history ::
  "world \<Rightarrow> channel \<Rightarrow> datetime \<Rightarrow> datetime \<Rightarrow> outcome \<times> event list" where
  "read_history w ch start_dt end_dt =
     after_events [Log (LogChecking start_dt end_dt)]
       (case history ch start_dt end_dt of
          Inl Forbidden \<Rightarrow> (Returned, [Log LogHistoryForbidden])
        | Inl NotFound \<Rightarrow> (Returned, [Log (LogHistoryHTTP NotFound)])
        | Inl HTTPException \<Rightarrow> (Returned, [Log (LogHistoryHTTP HTTPException)])
        | Inl OtherException \<Rightarrow> (Raised OtherException, [])
        | Inr msgs \<Rightarrow> check_guild w ch (reporter_ids msgs))"

text \<open>Lines 109-130: the window, then the channel fetch with its three handlers.\<close>

definition check_reports ::
  "world \<Rightarrow> datetime option \<Rightarrow> datetime option \<Rightarrow> outcome \<times> event list" where
  "check_reports w custom_start custom_end =
     (let window = effective_window (clock_now w) custom_start custom_end
      in case fetch_channel w of
           Inl NotFound \<Rightarrow> (Returned, [Log LogChannelNotFound])
         | Inl Forbidden \<Rightarrow> (Returned, [Log LogChannelForbidden])
         | Inl HTTPException \<Rightarrow> (Returned, [Log (LogChannelHTTP HTTPException)])
         | Inl OtherException \<Rightarrow> (Raised OtherException, [])
         | Inr ch \<Rightarrow> read_history w ch (fst window) (snd window))"

section \<open>Reading a trace\<close>

fun channel_sends :: "event list \<Rightarrow> ustr list" where
  "channel_sends [] = []"
| "channel_sends (ChannelSend t # evs) = t # channel_sends evs"
| "channel_sends (ev # evs) = channel_sends evs"

fun dm_recipients :: "event list \<Rightarrow> member list" where
  "dm_recipients [] = []"
| "dm_recipients (MemberSend m t # evs) = m # dm_recipients evs"
| "dm_recipients (ev # evs) = dm_recipients evs"

fun dm_warnings :: "event list \<Rightarrow> log_entry list" where
  "dm_warnings [] = []"
| "dm_warnings (Log (LogDMForbidden m) # evs) = LogDMForbidden m # dm_warnings evs"
| "dm_warnings (Log (LogDMHTTP m e) # evs) = LogDMHTTP m e # dm_warnings evs"
| "dm_warnings (Log (LogDMOther m e) # evs) = LogDMOther m e # dm_warnings evs"
| "dm_warnings (ev # evs) = dm_warnings evs"

text \<open>The warnings that the failing recipients of a list call for, in list order.\<close>

fun expected_warnings :: "member list \<Rightarrow> log_entry list" where
  "expected_warnings [] = []"
| "expected_warnings (m # ms) =
     (case send_raises m of
        None \<Rightarrow> expected_warnings ms
      | Some e \<Rightarrow> dm_handler m e # expected_warnings ms)"

section \<open>Concrete inputs\<close>

definition day :: "int \<Rightarrow> nat \<Rightarrow> nat \<Rightarrow> nat \<Rightarrow> datetime" where
  "day d h m s = \<lparr>ordinal = d, hour = h, minute = m, second = s, microsecond = 0\<rparr>"

definition person :: "int \<Rightarrow> member" where
  "person i =
     \<lparr>member_id = i, member_bot = False, display_name = [80, 48 + nat i],
      mention = [60, 64, 48 + nat i, 62], read_messages = ReadMessages True,
      send_raises = None\<rparr>"

definition posted :: "int \<Rightarrow> datetime \<Rightarrow> message" where
  "posted i t = \<lparr>author_id = i, created_at = t\<rparr>"

definition room :: "member list \<Rightarrow> message list \<Rightarrow> channel" where
  "room ms msgs =
     \<lparr>channel_id = 7,
      channel_guild = Some \<lparr>guild_id = 9, guild_members = ms, fetch_members_raises = None\<rparr>,
      channel_messages = msgs, history_raises = None, channel_send_raises = None\<rparr>"

definition at_time :: "datetime \<Rightarrow> channel \<Rightarrow> world" where
  "at_time now ch =
     \<lparr>clock_now = now, TARGET_MEMBER_IDS = {}, fetch_channel = Inr ch,
      bot_user_present = True\<rparr>"

section \<open>Shared facts\<close>

lemma non_reporters_filter:
  "non_reporters es rs = filter (\<lambda>m. member_id m \<notin> rs) es"
  by (induction es) simp_all

lemma keep_targets_filter:
  "keep_targets ts es = filter (\<lambda>m. member_id m \<in> ts) es"
  by (induction es) simp_all

lemma collect_eligible_filter:
  "collect_eligible ms = filter (\<lambda>m. \<not> member_bot m \<and> can_read m) ms"
  by (induction ms) simp_all

lemma dm_recipients_send_reminders: "dm_recipients (send_reminders ms) = ms"
  by (induction ms) (simp_all split: option.splits)

lemma channel_sends_send_reminders: "channel_sends (send_reminders ms) = []"
  by (induction ms) (simp_all split: option.splits)

lemma dm_warnings_handler:
  "dm_warnings (Log (dm_handler m e) # evs) = dm_handler m e # dm_warnings evs"
  by (cases e) simp_all

lemma dm_warnings_send_reminders: "dm_warnings (send_reminders ms) = expected_warnings ms"
  by (induction ms) (simp_all add: dm_warnings_handler split: option.splits)

lemma sublist_join_space: "s \<in> set ss \<Longrightarrow> sublist s (join_space ss)"
proof (induction ss rule: join_space.induct)
  case 1
  then show ?case by simp
next
  case (2 s')
  then show ?case by simp
next
  case (3 a b rest)
  show ?case
  proof (cases "s = a")
    case True
    then show ?thesis by simp
  next
    case False
    with 3 have "sublist s (join_space (b # rest))" by simp
    then obtain ps qs where "join_space (b # rest) = ps @ s @ qs"
      unfolding sublist_def by blast
    then have "join_space (a # b # rest) = (a @ [32] @ ps) @ s @ qs" by simp
    then show ?thesis unfolding sublist_def by blast
  qed
qed

lemma mention_in_reminder_text: "m \<in> set ms \<Longrightarrow> sublist (mention m) (reminder_text ms)"
proof -
  assume "m \<in> set ms"
  then have "sublist (mention m) (join_space (map mention ms))"
    by (simp add: sublist_join_space)
  then obtain ps qs where "join_space (map mention ms) = ps @ mention m @ qs"
    unfolding sublist_def by blast
  then have "reminder_text ms = (reminder_header @ [10] @ ps) @ mention m @ qs"
    by (simp add: reminder_text_def)
  then show ?thesis unfolding sublist_def by blast
qed

lemma in_window_strict:
  "in_window a b msg \<Longrightarrow> created_at msg \<noteq> a \<and> created_at msg \<noteq> b"
  by (auto simp: in_window_def)

text \<open>The definitions that a concrete run unfolds.\<close>

lemmas ex_defs = at_time_def room_def person_def posted_def day_def

lemmas run_defs = check_reports_def effective_window_def today_range_def replace_time_def
  minus_days_def read_history_def history_def in_window_def timestamp_us_def check_guild_def
  resolve_members_def report_absentees_def eligible_members_def can_read_def notify_def
  after_events_def Let_def

section \<open>The difference between the roster and the reporters\<close>

text \<open>
  C1. For every list of eligible members and every reporter set, the non-reporters are
  exactly the eligible members whose identifier is not in the reporter set, each as often
  as it occurs in the input, and in the relative order of the input list.
\<close>

theorem non_reporters_exact_in_order:
  "non_reporters es rs = filter (\<lambda>m. member_id m \<notin> rs) es
   \<and> set (non_reporters es rs) = {m \<in> set es. member_id m \<notin> rs}
   \<and> subseq (non_reporters es rs) es"
  by (simp add: non_reporters_filter)

theorem non_reporters_exact_in_order_witness:
  "non_reporters [person 1, person 2, person 3, person 4] {1, 2} = [person 3, person 4]
   \<and> subseq [person 3, person 4] [person 1, person 2, person 3, person 4]"
  using non_reporters_exact_in_order [of "[person 1, person 2, person 3, person 4]" "{1, 2}"]
  by (simp add: person_def)

section \<open>The report window\<close>

text \<open>
  C2. For every invocation time, both bounds of the window lie on the calendar day of the
  invocation when its hour is at least 6, and on the previous calendar day when its hour is
  below 6; the start is 18:00:00 and the end 23:59:59 of that day. An invocation at exactly
  06:00 has hour 6 and so uses the day of the invocation.
\<close>

theorem today_range_anchor:
  "(6 \<le> hour now \<longrightarrow>
      ordinal (fst (today_range now)) = ordinal now \<and>
      ordinal (snd (today_range now)) = ordinal now)
   \<and> (hour now < 6 \<longrightarrow>
      ordinal (fst (today_range now)) = ordinal now - 1 \<and>
      ordinal (snd (today_range now)) = ordinal now - 1)
   \<and> hour (fst (today_range now)) = 18 \<and> minute (fst (today_range now)) = 0
   \<and> second (fst (today_range now)) = 0 \<and> microsecond (fst (today_range now)) = 0
   \<and> hour (snd (today_range now)) = 23 \<and> minute (snd (today_range now)) = 59
   \<and> second (snd (today_range now)) = 59 \<and> microsecond (snd (today_range now)) = 0"
  by (simp add: today_range_def replace_time_def minus_days_def Let_def)

theorem today_range_anchor_witness:
  "6 \<le> hour (day 100 6 0 0) \<and> hour (day 100 5 59 59) < 6
   \<and> today_range (day 100 6 0 0) = (day 100 18 0 0, day 100 23 59 59)
   \<and> ordinal (fst (today_range (day 100 5 59 59))) = 99
   \<and> ordinal (snd (today_range (day 100 5 59 59))) = 99"
  using today_range_anchor [of "day 100 6 0 0"] today_range_anchor [of "day 100 5 59 59"]
  by (simp add: day_def today_range_def replace_time_def minus_days_def Let_def)

text \<open>
  C3. The claim is that a message posted exactly at the start (18:00:00) or exactly at the
  end (23:59:59) of the window counts as a report. The run below is the scheduled one of
  00:05 on day 100, whose window is 18:00:00 to 23:59:59 of day 99. The only eligible member
  posted once, at 23:59:59 in the first run and at 18:00:00 in the second: both bounds are
  exclusive in the history read, so the set of reporters is empty and the member is
  reminded. A post one second after the start is counted.
\<close>

theorem window_bounds_not_counted:
  "dm_recipients (snd (check_reports
      (at_time (day 100 0 5 0) (room [person 1] [posted 1 (day 99 23 59 59)])) None None))
     = [person 1]
   \<and> dm_recipients (snd (check_reports
      (at_time (day 100 0 5 0) (room [person 1] [posted 1 (day 99 18 0 0)])) None None))
     = [person 1]
   \<and> channel_sends (snd (check_reports
      (at_time (day 100 0 5 0) (room [person 1] [posted 1 (day 99 18 0 1)])) None None))
     = [confirmation_text]"
  by (simp add: run_defs ex_defs)

section \<open>The notices\<close>

text \<open>
  C4, as the code has it. With no absentee the only action is one call of
  \<^verbatim>\<open>channel.send\<close> with the confirmation, and no direct message. With absentees there is
  exactly one call of \<^verbatim>\<open>channel.send\<close>, whose text contains the mention of every absentee;
  when that call returns, it is followed by exactly one direct message per absentee, in
  list order; when it raises, the exception leaves the run and no direct message is
  attempted.
\<close>

theorem notify_messages:
  "(absentees = [] \<longrightarrow> snd (notify ch absentees) = [ChannelSend confirmation_text])
   \<and> (absentees \<noteq> [] \<longrightarrow>
        channel_sends (snd (notify ch absentees)) = [reminder_text absentees]
        \<and> (\<forall>m \<in> set absentees. sublist (mention m) (reminder_text absentees))
        \<and> (channel_send_raises ch = None \<longrightarrow>
             notify ch absentees =
               (Returned, ChannelSend (reminder_text absentees) # send_reminders absentees)
             \<and> dm_recipients (send_reminders absentees) = absentees)
        \<and> (\<forall>e. channel_send_raises ch = Some e \<longrightarrow>
             notify ch absentees = (Raised e, [ChannelSend (reminder_text absentees)])))"
  by (auto simp: notify_def channel_sends_send_reminders dm_recipients_send_reminders
      mention_in_reminder_text split: option.splits)

theorem notify_messages_witness:
  "snd (notify (room [] []) []) = [ChannelSend confirmation_text]
   \<and> [person 3, person 4] \<noteq> [] \<and> channel_send_raises (room [] []) = None
   \<and> notify (room [] []) [person 3, person 4] =
       (Returned, [ChannelSend (reminder_header @ [10, 60, 64, 51, 62, 32, 60, 64, 52, 62]),
                   MemberSend (person 3) dm_text, MemberSend (person 4) dm_text])
   \<and> sublist (mention (person 4)) (reminder_text [person 3, person 4])"
  using notify_messages [of "[]" "room [] []"]
    notify_messages [of "[person 3, person 4]" "room [] []"]
  by (simp add: ex_defs reminder_text_def)

text \<open>
  The unconditional reading of C4 fails: one absentee and a channel in which the bot may
  not post. \<^verbatim>\<open>channel.send\<close> raises \<^verbatim>\<open>Forbidden\<close>, which no handler catches, and the absentee
  gets no direct message.
\<close>

theorem notify_send_failure_counterexample:
  "non_reporters (eligible_members {} [person 1]) (reporter_ids []) = [person 1]
   \<and> check_reports
        (at_time (day 100 0 5 0) ((room [person 1] [])\<lparr>channel_send_raises := Some Forbidden\<rparr>))
        None None
      = (Raised Forbidden,
         [Log (LogChecking (day 99 18 0 0) (day 99 23 59 59)), Log (LogEligibleCount 1),
          Print [person 1], ChannelSend (reminder_text [person 1])])
   \<and> dm_recipients (snd (check_reports
        (at_time (day 100 0 5 0) ((room [person 1] [])\<lparr>channel_send_raises := Some Forbidden\<rparr>))
        None None)) \<noteq> [person 1]"
  by (simp add: run_defs ex_defs)

text \<open>
  C5. For every list of absentees and every pattern of failing direct messages: each
  absentee gets exactly one attempt, in list order, whichever attempts fail; each failure
  is logged with the recipient and its cause; and a run makes exactly one call of
  \<^verbatim>\<open>channel.send\<close>. In a run that reaches the loop, the run returns normally and the
  public message is the single reminder.
\<close>

theorem dm_failures_isolated:
  "dm_recipients (send_reminders ms) = ms
   \<and> dm_warnings (send_reminders ms) = expected_warnings ms
   \<and> (\<forall>m \<in> set ms. \<forall>e. send_raises m = Some e \<longrightarrow>
         Log (dm_handler m e) \<in> set (send_reminders ms))
   \<and> length (channel_sends (snd (notify ch ms))) = 1
   \<and> (ms \<noteq> [] \<and> channel_send_raises ch = None \<longrightarrow>
         fst (notify ch ms) = Returned
         \<and> channel_sends (snd (notify ch ms)) = [reminder_text ms]
         \<and> dm_recipients (snd (notify ch ms)) = ms
         \<and> dm_warnings (snd (notify ch ms)) = expected_warnings ms)"
proof -
  have logged: "\<forall>m \<in> set ms. \<forall>e. send_raises m = Some e \<longrightarrow>
         Log (dm_handler m e) \<in> set (send_reminders ms)"
    by (induction ms) (auto split: option.splits)
  have once: "length (channel_sends (snd (notify ch ms))) = 1"
    by (simp add: notify_def channel_sends_send_reminders split: option.splits)
  have run: "ms \<noteq> [] \<and> channel_send_raises ch = None \<longrightarrow>
         fst (notify ch ms) = Returned
         \<and> channel_sends (snd (notify ch ms)) = [reminder_text ms]
         \<and> dm_recipients (snd (notify ch ms)) = ms
         \<and> dm_warnings (snd (notify ch ms)) = expected_warnings ms"
    by (simp add: notify_def channel_sends_send_reminders dm_recipients_send_reminders
        dm_warnings_send_reminders)
  from logged once run show ?thesis
    by (simp only: dm_recipients_send_reminders dm_warnings_send_reminders simp_thms)
qed

theorem dm_failures_isolated_witness:
  "[(person 1)\<lparr>send_raises := Some Forbidden\<rparr>, person 2,
    (person 3)\<lparr>send_raises := Some OtherException\<rparr>] \<noteq> []
   \<and> channel_send_raises (room [] []) = None
   \<and> dm_recipients (snd (notify (room [] [])
        [(person 1)\<lparr>send_raises := Some Forbidden\<rparr>, person 2,
         (person 3)\<lparr>send_raises := Some OtherException\<rparr>]))
      = [(person 1)\<lparr>send_raises := Some Forbidden\<rparr>, person 2,
         (person 3)\<lparr>send_raises := Some OtherException\<rparr>]
   \<and> dm_warnings (snd (notify (room [] [])
        [(person 1)\<lparr>send_raises := Some Forbidden\<rparr>, person 2,
         (person 3)\<lparr>send_raises := Some OtherException\<rparr>]))
      = [LogDMForbidden ((person 1)\<lparr>send_raises := Some Forbidden\<rparr>),
         LogDMOther ((person 3)\<lparr>send_raises := Some OtherException\<rparr>) OtherException]"
  using dm_failures_isolated [of
      "[(person 1)\<lparr>send_raises := Some Forbidden\<rparr>, person 2,
        (person 3)\<lparr>send_raises := Some OtherException\<rparr>]" "room [] []"]
  by (simp add: ex_defs)

section \<open>Aborted runs\<close>

text \<open>
  C6. When fetching the channel, reading the history or enumerating the members raises,
  the run makes no call of \<^verbatim>\<open>channel.send\<close> and no call of \<^verbatim>\<open>member.send\<close>; for the
  permission and transport errors (\<^verbatim>\<open>NotFound\<close>, \<^verbatim>\<open>Forbidden\<close>, \<^verbatim>\<open>HTTPException\<close>) the
  handler logs and the run returns.
\<close>

theorem aborted_run_sends_nothing:
  "(fetch_channel w = Inl e \<longrightarrow>
      channel_sends (snd (check_reports w cs ce)) = []
      \<and> dm_recipients (snd (check_reports w cs ce)) = []
      \<and> (e \<noteq> OtherException \<longrightarrow> fst (check_reports w cs ce) = Returned))
   \<and> (fetch_channel w = Inr ch \<and> history_raises ch = Some e \<longrightarrow>
      channel_sends (snd (check_reports w cs ce)) = []
      \<and> dm_recipients (snd (check_reports w cs ce)) = []
      \<and> (e \<noteq> OtherException \<longrightarrow> fst (check_reports w cs ce) = Returned))
   \<and> (fetch_channel w = Inr ch \<and> history_raises ch = None \<and> channel_guild ch = Some g
        \<and> bot_user_present w \<and> fetch_members_raises g = Some e \<longrightarrow>
      channel_sends (snd (check_reports w cs ce)) = []
      \<and> dm_recipients (snd (check_reports w cs ce)) = []
      \<and> (e \<noteq> OtherException \<longrightarrow> fst (check_reports w cs ce) = Returned))"
proof -
  have a: "fetch_channel w = Inl e \<longrightarrow>
      channel_sends (snd (check_reports w cs ce)) = []
      \<and> dm_recipients (snd (check_reports w cs ce)) = []
      \<and> (e \<noteq> OtherException \<longrightarrow> fst (check_reports w cs ce) = Returned)"
    by (cases e) (simp_all add: check_reports_def Let_def)
  have b: "fetch_channel w = Inr ch \<and> history_raises ch = Some e \<longrightarrow>
      channel_sends (snd (check_reports w cs ce)) = []
      \<and> dm_recipients (snd (check_reports w cs ce)) = []
      \<and> (e \<noteq> OtherException \<longrightarrow> fst (check_reports w cs ce) = Returned)"
    by (cases e) (simp_all add: check_reports_def read_history_def history_def
        after_events_def Let_def)
  have c: "fetch_channel w = Inr ch \<and> history_raises ch = None \<and> channel_guild ch = Some g
        \<and> bot_user_present w \<and> fetch_members_raises g = Some e \<longrightarrow>
      channel_sends (snd (check_reports w cs ce)) = []
      \<and> dm_recipients (snd (check_reports w cs ce)) = []
      \<and> (e \<noteq> OtherException \<longrightarrow> fst (check_reports w cs ce) = Returned)"
    by (cases e) (simp_all add: check_reports_def read_history_def history_def
        check_guild_def resolve_members_def after_events_def Let_def)
  from a b c show ?thesis by blast
qed

theorem aborted_run_sends_nothing_witness:
  "check_reports ((at_time (day 100 0 5 0) (room [person 1] []))\<lparr>fetch_channel := Inl Forbidden\<rparr>)
      None None = (Returned, [Log LogChannelForbidden])
   \<and> channel_sends (snd (check_reports
        (at_time (day 100 0 5 0) ((room [person 1] [])\<lparr>history_raises := Some HTTPException\<rparr>))
        None None)) = []
   \<and> dm_recipients (snd (check_reports
        (at_time (day 100 0 5 0)
          ((room [person 1] [])\<lparr>channel_guild :=
             Some \<lparr>guild_id = 9, guild_members = [person 1],
                   fetch_members_raises = Some Forbidden\<rparr>\<rparr>))
        None None)) = []"
  using aborted_run_sends_nothing [of
      "(at_time (day 100 0 5 0) (room [person 1] []))\<lparr>fetch_channel := Inl Forbidden\<rparr>"
      Forbidden None None]
    aborted_run_sends_nothing [of
      "at_time (day 100 0 5 0) ((room [person 1] [])\<lparr>history_raises := Some HTTPException\<rparr>)"
      HTTPException None None
      "(room [person 1] [])\<lparr>history_raises := Some HTTPException\<rparr>"]
    aborted_run_sends_nothing [of
      "at_time (day 100 0 5 0)
          ((room [person 1] [])\<lparr>channel_guild :=
             Some \<lparr>guild_id = 9, guild_members = [person 1],
                   fetch_members_raises = Some Forbidden\<rparr>\<rparr>)"
      Forbidden None None
      "(room [person 1] [])\<lparr>channel_guild :=
             Some \<lparr>guild_id = 9, guild_members = [person 1],
                   fetch_members_raises = Some Forbidden\<rparr>\<rparr>"
      "\<lparr>guild_id = 9, guild_members = [person 1], fetch_members_raises = Some Forbidden\<rparr>"]
  by (simp add: run_defs ex_defs)

section \<open>The roster\<close>

text \<open>
  C7. With a non-empty allow-list the eligible members are exactly the non-bot members
  who can read the channel and whose identifier is in the allow-list, in the order of the
  fetch; with an empty allow-list they are all non-bot members who can read the channel.
\<close>

theorem allow_list_restricts:
  "(targets \<noteq> {} \<longrightarrow>
      eligible_members targets fetched =
        filter (\<lambda>m. member_id m \<in> targets) (collect_eligible fetched)
      \<and> set (eligible_members targets fetched) =
          {m \<in> set fetched. \<not> member_bot m \<and> can_read m \<and> member_id m \<in> targets})
   \<and> (targets = {} \<longrightarrow>
      eligible_members targets fetched = collect_eligible fetched
      \<and> set (eligible_members targets fetched) =
          {m \<in> set fetched. \<not> member_bot m \<and> can_read m})"
  by (auto simp: eligible_members_def keep_targets_filter collect_eligible_filter Let_def)

theorem allow_list_restricts_witness:
  "({1, 3} :: int set) \<noteq> {}
   \<and> collect_eligible [person 1, person 2, person 3] = [person 1, person 2, person 3]
   \<and> eligible_members {1, 3} [person 1, person 2, person 3] = [person 1, person 3]
   \<and> eligible_members {} [person 1, person 2, person 3] = [person 1, person 2, person 3]"
  using allow_list_restricts [of "{1, 3}" "[person 1, person 2, person 3]"]
    allow_list_restricts [of "{}" "[person 1, person 2, person 3]"]
  by (simp add: person_def can_read_def)

text \<open>
  C8. With no reporter (an empty history) every eligible member is a non-reporter, and
  with no eligible member there is no non-reporter, whatever the reporters.
\<close>

theorem non_reporters_degenerate:
  "non_reporters es {} = es
   \<and> non_reporters es (reporter_ids []) = es
   \<and> non_reporters [] rs = []"
  by (simp add: non_reporters_filter)

theorem non_reporters_degenerate_witness:
  "non_reporters [person 1, person 2] (reporter_ids []) = [person 1, person 2]
   \<and> non_reporters [] {1, 2} = []"
  using non_reporters_degenerate [of "[person 1, person 2]" "{1, 2}"]
  by simp

text \<open>
  C9. A member whose permission check raises \<^verbatim>\<open>AttributeError\<close> cannot read the channel
  as far as the run is concerned: the member is not in the eligible list, with or without
  an allow-list, and the loop goes on with the members after it.
\<close>

theorem unreadable_member_excluded:
  "read_messages m = RaisesAttributeError \<longrightarrow>
     \<not> can_read m
     \<and> m \<notin> set (collect_eligible fetched)
     \<and> m \<notin> set (eligible_members targets fetched)
     \<and> collect_eligible (earlier @ m # later) =
         collect_eligible earlier @ collect_eligible later"
  by (auto simp: can_read_def collect_eligible_filter keep_targets_filter eligible_members_def
      Let_def)

theorem unreadable_member_excluded_witness:
  "read_messages ((person 2)\<lparr>read_messages := RaisesAttributeError\<rparr>) = RaisesAttributeError
   \<and> collect_eligible
        [person 1, (person 2)\<lparr>read_messages := RaisesAttributeError\<rparr>, person 3]
      = [person 1, person 3]
   \<and> check_reports (at_time (day 100 0 5 0)
        (room [person 1, (person 2)\<lparr>read_messages := RaisesAttributeError\<rparr>, person 3]
              [posted 1 (day 99 20 0 0)])) None None
      = (Returned,
         [Log (LogChecking (day 99 18 0 0) (day 99 23 59 59)), Log (LogEligibleCount 2),
          Print [person 1, person 3], ChannelSend (reminder_text [person 3]),
          MemberSend (person 3) dm_text])"
  using unreadable_member_excluded [of "(person 2)\<lparr>read_messages := RaisesAttributeError\<rparr>"
      "[person 1, (person 2)\<lparr>read_messages := RaisesAttributeError\<rparr>, person 3]" "{}"
      "[person 1]" "[person 3]"]
  by (simp add: run_defs ex_defs)

section \<open>Custom windows\<close>

text \<open>
  C10. When exactly one of the custom bounds is given, the window is the default one and
  the run is the run without any custom bound.
\<close>

theorem partial_custom_window_ignored:
  "effective_window now (Some s) None = today_range now
   \<and> effective_window now None (Some e) = today_range now
   \<and> check_reports w (Some s) None = check_reports w None None
   \<and> check_reports w None (Some e) = check_reports w None None"
  by (simp add: check_reports_def effective_window_def)

theorem partial_custom_window_ignored_witness:
  "effective_window (day 100 12 0 0) (Some (day 50 9 0 0)) None
     = (day 100 18 0 0, day 100 23 59 59)
   \<and> effective_window (day 100 12 0 0) None (Some (day 50 9 0 0))
     = (day 100 18 0 0, day 100 23 59 59)
   \<and> effective_window (day 100 12 0 0) (Some (day 50 9 0 0)) (Some (day 50 10 0 0))
     = (day 50 9 0 0, day 50 10 0 0)"
  using partial_custom_window_ignored [of "day 100 12 0 0" "day 50 9 0 0" "day 50 9 0 0"
      "at_time (day 100 12 0 0) (room [] [])"]
  by (simp add: effective_window_def today_range_def replace_time_def day_def Let_def)

end
